theory Spec2Isabelle
  imports Main "HOL-Library.Word"
begin

section \<open>The Alembic archive inspector (autofuzz/alembic\_fuzzer.cc)\<close>

text \<open>
  The harness is control flow and print statements over three collaborators: the Alembic
  library, the temporary-file helpers of \<^verbatim>\<open>fuzz_utils.h\<close> and \<^verbatim>\<open>std::cout\<close>. The model
  keeps the functions of the source under their names. What the library answers is data
  (records and a tree of objects); every library call that reads the file lazily may
  throw and is a value of \<open>exn + 'a\<close>.
\<close>

subsection \<open>Exceptions and output\<close>

text \<open>
  A C++ \<^verbatim>\<open>throw\<close> raises an object of any type. The handler of the entry point is
  \<^verbatim>\<open>catch (const std::exception& e)\<close>, so two kinds of thrown objects are told apart: the
  ones derived from \<^verbatim>\<open>std::exception\<close>, with their \<^verbatim>\<open>what()\<close> message, and all others.
\<close>

datatype exn = StdException string | NonStdThrow

type_synonym 'a lib = "exn + 'a"

text \<open>
  A computation yields the text it wrote to \<^verbatim>\<open>std::cout\<close> and either its value or the
  exception that ended it. The text written before a throw stays written.
\<close>

type_synonym 'a cxx = "string \<times> 'a lib"

definition cout :: "string \<Rightarrow> unit cxx" where
  "cout s = (s, Inr ())"

definition throw :: "exn \<Rightarrow> unit cxx" where
  "throw e = ([], Inl e)"

definition skip :: "unit cxx" where
  "skip = ([], Inr ())"

text \<open>Statements in sequence: the first throw ends the sequence.\<close>

fun seq :: "unit cxx list \<Rightarrow> unit cxx" where
  "seq [] = ([], Inr ())"
| "seq (s # ss) =
     (case s of
        (out, Inl e) \<Rightarrow> (out, Inl e)
      | (out, Inr _) \<Rightarrow> (case seq ss of (out', r) \<Rightarrow> (out @ out', r)))"

text \<open>\<^verbatim>\<open>operator<<\<close> on a \<^verbatim>\<open>size_t\<close>: the decimal digits, most significant first.\<close>

definition digit :: "nat \<Rightarrow> char" where
  "digit d = ''0123456789'' ! d"

fun dec :: "nat \<Rightarrow> string" where
  "dec n = (if n < 10 then [digit n] else dec (n div 10) @ [digit (n mod 10)])"

declare dec.simps [simp del]

text \<open>
  \<^verbatim>\<open>std::cout << lib_call()\<close>: the call is evaluated when its turn in the chain of
  \<^verbatim>\<open><<\<close> comes (operands of \<^verbatim>\<open><<\<close> are sequenced left to right since C++17), and
  nothing is printed for it when it throws.
\<close>

definition cout_size :: "nat lib \<Rightarrow> unit cxx" where
  "cout_size r = (case r of Inl e \<Rightarrow> throw e | Inr n \<Rightarrow> cout (dec n))"

definition cout_lib :: "string lib \<Rightarrow> unit cxx" where
  "cout_lib r = (case r of Inl e \<Rightarrow> throw e | Inr s \<Rightarrow> cout s)"

subsection \<open>The library interface\<close>

text \<open>
  Property headers are held by a compound property once it is constructed:
  \<^verbatim>\<open>getNumProperties()\<close> is the length of the list and \<^verbatim>\<open>getPropertyHeader(p).getName()\<close>
  its \<open>p\<close>-th element; the loops of the source only read below the count. Counts are
  \<^verbatim>\<open>size_t\<close>; the source only prints them and compares loop indices below them, so they are
  natural numbers here.
\<close>

record ICompoundProperty =
  compound_propertyNames :: "string list"

record IPolyMeshSchema =
  mesh_propertyNames :: "string list"
  mesh_getNumSamples :: "nat lib"
  mesh_getNormalsParam_getNumSamples :: "nat lib"
  mesh_getUVsParam_getNumSamples :: "nat lib"
  mesh_getArbGeomParams :: "ICompoundProperty lib"

text \<open>\<^verbatim>\<open>ISubDSchema\<close> has no normals parameter; it has four scalar properties.\<close>

record ISubDSchema =
  subd_propertyNames :: "string list"
  subd_getNumSamples :: "nat lib"
  subd_getUVsParam_getNumSamples :: "nat lib"
  subd_getArbGeomParams :: "ICompoundProperty lib"
  subd_getSubdivisionSchemeProperty :: "string lib"
  subd_getFaceVaryingInterpolateBoundaryProperty :: "string lib"
  subd_getFaceVaryingPropagateCornersProperty :: "string lib"
  subd_getInterpolateBoundaryProperty :: "string lib"

record ICurvesSchema =
  curves_propertyNames :: "string list"
  curves_getNumSamples :: "nat lib"
  curves_getNormalsParam_getNumSamples :: "nat lib"
  curves_getUVsParam_getNumSamples :: "nat lib"
  curves_getArbGeomParams :: "ICompoundProperty lib"

record IFaceSetSchema =
  faceset_getNumSamples :: "nat lib"

record IXformSchema =
  xform_getNumSamples :: "nat lib"
  xform_getNumOps :: "nat lib"

record IMaterialSchema =
  material_getShaderTypesForTarget :: "string \<Rightarrow> string list lib"
  material_getShaderParameters :: "string \<Rightarrow> string \<Rightarrow> ICompoundProperty lib"

subsection \<open>Property reports (lines 53--162)\<close>

text \<open>
  The inner loop over the generic-parameter group (lines 75--86, 110--121, 148--159), the
  same text in the three functions. The loops also read \<^verbatim>\<open>header.getPropertyType()\<close> into a
  variable that is never used; the model leaves it out.
\<close>

definition printArbGeomParams :: "ICompoundProperty lib \<Rightarrow> unit cxx" where
  "printArbGeomParams r =
     (case r of
        Inl e \<Rightarrow> throw e
      | Inr geoParam \<Rightarrow>
          (let geoPropCount = length (compound_propertyNames geoParam) in
           seq (seq [cout ''    GeomParams Count: '', cout (dec geoPropCount), cout ''.\<newline>'']
                # map (\<lambda>g. let nameGeo = compound_propertyNames geoParam ! g in
                         seq [cout ''    arbGeomParam['', cout (dec g), cout ''] name: '',
                              cout nameGeo, cout ''\<newline>''])
                    [0..<geoPropCount])))"

definition printMeshAttributes :: "IPolyMeshSchema \<Rightarrow> unit cxx" where
  "printMeshAttributes schema =
     (let meshPropertyCount = length (mesh_propertyNames schema) in
      seq (seq [cout ''  Mesh Property Count: '', cout (dec meshPropertyCount), cout ''.\<newline>'']
           # map (\<lambda>p. let name = mesh_propertyNames schema ! p in
                    seq [seq [cout ''  Property['', cout (dec p), cout ''] name: '',
                              cout name, cout ''\<newline>''],
                         if name = ''P'' then
                           seq [cout ''    Sample Count: '',
                                cout_size (mesh_getNumSamples schema), cout ''\<newline>'']
                         else if name = ''N'' then
                           seq [cout ''    Sample Count: '',
                                cout_size (mesh_getNormalsParam_getNumSamples schema),
                                cout ''\<newline>'']
                         else if name = ''uv'' \<or> name = ''st'' then
                           seq [cout ''    Sample Count: '',
                                cout_size (mesh_getUVsParam_getNumSamples schema),
                                cout ''\<newline>'']
                         else if name = ''.arbGeomParams'' then
                           printArbGeomParams (mesh_getArbGeomParams schema)
                         else skip])
               [0..<meshPropertyCount]))"

definition printSubDAttributes :: "ISubDSchema \<Rightarrow> unit cxx" where
  "printSubDAttributes schema =
     (let subdPropertyCount = length (subd_propertyNames schema) in
      seq (seq [cout ''  SubD Property Count: '', cout (dec subdPropertyCount), cout ''.\<newline>'']
           # map (\<lambda>p. let name = subd_propertyNames schema ! p in
                    seq [seq [cout ''  Property['', cout (dec p), cout ''] name: '',
                              cout name, cout ''\<newline>''],
                         if name = ''P'' then
                           seq [cout ''    Sample Count: '',
                                cout_size (subd_getNumSamples schema), cout ''\<newline>'']
                         else if name = ''uv'' \<or> name = ''st'' then
                           seq [cout ''    Sample Count: '',
                                cout_size (subd_getUVsParam_getNumSamples schema),
                                cout ''\<newline>'']
                         else if name = ''.arbGeomParams'' then
                           printArbGeomParams (subd_getArbGeomParams schema)
                         else skip])
               [0..<subdPropertyCount]))"

definition printCurvesAttributes :: "ICurvesSchema \<Rightarrow> unit cxx" where
  "printCurvesAttributes schema =
     (let propertyCount = length (curves_propertyNames schema) in
      seq (seq [cout ''  Curves Property Count: '', cout (dec propertyCount), cout ''.\<newline>'']
           # map (\<lambda>p. let name = curves_propertyNames schema ! p in
                    seq [seq [cout ''  Property['', cout (dec p), cout ''] name: '',
                              cout name, cout ''\<newline>''],
                         if name = ''P'' then
                           seq [cout ''    Sample Count: '',
                                cout_size (curves_getNumSamples schema), cout ''\<newline>'']
                         else if name = ''N'' then
                           seq [cout ''    Sample Count: '',
                                cout_size (curves_getNormalsParam_getNumSamples schema),
                                cout ''\<newline>'']
                         else if name = ''uv'' \<or> name = ''st'' then
                           seq [cout ''    Sample Count: '',
                                cout_size (curves_getUVsParam_getNumSamples schema),
                                cout ''\<newline>'']
                         else if name = ''.arbGeomParams'' then
                           printArbGeomParams (curves_getArbGeomParams schema)
                         else skip])
               [0..<propertyCount]))"

subsection \<open>Objects\<close>

text \<open>
  An object header carries the names and the metadata; the six \<^verbatim>\<open>matches\<close> predicates of
  the schema classes are functions of the header alone. Nothing in the harness makes them
  exclusive, so each is a field of its own.
\<close>

record ObjectHeader =
  header_getName :: string
  header_getFullName :: string
  header_getMetaData_serialize :: string
  IPolyMesh_matches :: bool
  ISubD_matches :: bool
  IFaceSet_matches :: bool
  ICurves_matches :: bool
  IXform_matches :: bool
  IMaterial_matches :: bool

text \<open>
  Each \<^verbatim>\<open>print<Kind>\<close> function wraps the node once more, as in
  \<^verbatim>\<open>IPolyMesh mesh(node.getParent(), header.getName())\<close>, and takes the schema of the
  wrapper. The wrapper's constructor reads the file and may throw; what it gives for a
  node is a field of the node, one per kind.
\<close>

record schemas =
  as_IPolyMesh :: "IPolyMeshSchema lib"
  as_ISubD :: "ISubDSchema lib"
  as_IFaceSet :: "IFaceSetSchema lib"
  as_ICurves :: "ICurvesSchema lib"
  as_IXform :: "IXformSchema lib"
  as_IMaterial :: "IMaterialSchema lib"

text \<open>
  \<^verbatim>\<open>getNumChildren()\<close> is the length of the list of children, \<^verbatim>\<open>getChild(i)\<close> its
  \<open>i\<close>-th element, which is the child or the exception thrown while loading it.
\<close>

datatype IObject = IObject (getHeader: ObjectHeader) (getSchemas: schemas)
  (getChildren: "(exn + IObject) list")

record IArchive =
  archive_valid :: bool
  archive_getName :: string
  archive_getTop :: "IObject lib"

text \<open>\<^verbatim>\<open>IFactory::getArchive\<close>, a function of the path.\<close>

type_synonym IFactory = "string \<Rightarrow> IArchive lib"

subsection \<open>Per-kind reports (lines 164--243)\<close>

definition printPolyMesh :: "IObject \<Rightarrow> unit cxx" where
  "printPolyMesh node =
     (case as_IPolyMesh (getSchemas node) of
        Inl e \<Rightarrow> throw e
      | Inr schema \<Rightarrow> printMeshAttributes schema)"

definition printSubD :: "IObject \<Rightarrow> unit cxx" where
  "printSubD node =
     (case as_ISubD (getSchemas node) of
        Inl e \<Rightarrow> throw e
      | Inr schema \<Rightarrow>
          seq [printSubDAttributes schema,
               cout ''  Subdivision Scheme: '',
               cout_lib (subd_getSubdivisionSchemeProperty schema), cout ''\<newline>'',
               cout ''  Face Varying Interpolate Boundary: '',
               cout_lib (subd_getFaceVaryingInterpolateBoundaryProperty schema), cout ''\<newline>'',
               cout ''  Face Varying Propagate Corners: '',
               cout_lib (subd_getFaceVaryingPropagateCornersProperty schema), cout ''\<newline>'',
               cout ''  Interpolate Boundary: '',
               cout_lib (subd_getInterpolateBoundaryProperty schema), cout ''\<newline>''])"

definition printFaceSet :: "IObject \<Rightarrow> unit cxx" where
  "printFaceSet node =
     (case as_IFaceSet (getSchemas node) of
        Inl e \<Rightarrow> throw e
      | Inr schema \<Rightarrow>
          seq [cout ''  Sample Count: '', cout_size (faceset_getNumSamples schema),
               cout ''\<newline>''])"

definition printCurves :: "IObject \<Rightarrow> unit cxx" where
  "printCurves node =
     (case as_ICurves (getSchemas node) of
        Inl e \<Rightarrow> throw e
      | Inr schema \<Rightarrow> printCurvesAttributes schema)"

definition printXform :: "IObject \<Rightarrow> unit cxx" where
  "printXform node =
     (case as_IXform (getSchemas node) of
        Inl e \<Rightarrow> throw e
      | Inr schema \<Rightarrow>
          seq [cout ''  Sample Count: '', cout_size (xform_getNumSamples schema),
               cout ''\<newline>'',
               cout ''  Number of Ops: '', cout_size (xform_getNumOps schema),
               cout ''\<newline>''])"

text \<open>
  The body of the loop over the shader types of one target (lines 230--241) and the body
  of the loop over the targets (lines 223--242).
\<close>

definition printShaderType :: "IMaterialSchema \<Rightarrow> string \<Rightarrow> string list \<Rightarrow> nat \<Rightarrow> unit cxx" where
  "printShaderType schema target shaderTypes s =
     seq [cout ''    Shader Type ['', cout (dec s), cout ''] name: '', cout (shaderTypes ! s),
          cout ''\<newline>'',
          case material_getShaderParameters schema target (shaderTypes ! s) of
            Inl e \<Rightarrow> throw e
          | Inr parameters \<Rightarrow>
              (let parameterCount = length (compound_propertyNames parameters) in
               seq [cout ''    Shader Parameter Count: '', cout (dec parameterCount),
                    cout ''\<newline>''])]"

definition printTarget :: "IMaterialSchema \<Rightarrow> string list \<Rightarrow> nat \<Rightarrow> unit cxx" where
  "printTarget schema targetNames t =
     seq [cout ''  Target['', cout (dec t), cout ''] name: '', cout (targetNames ! t),
          cout ''\<newline>'',
          case material_getShaderTypesForTarget schema (targetNames ! t) of
            Inl e \<Rightarrow> throw e
          | Inr shaderTypes \<Rightarrow>
              (let shaderTypeCount = length shaderTypes in
               seq (seq [cout ''    Shader Type Count: '', cout (dec shaderTypeCount),
                         cout ''\<newline>'']
                    # map (printShaderType schema (targetNames ! t) shaderTypes)
                        [0..<shaderTypeCount]))]"

definition printMaterial :: "IObject \<Rightarrow> unit cxx" where
  "printMaterial node =
     (case as_IMaterial (getSchemas node) of
        Inl e \<Rightarrow> throw e
      | Inr schema \<Rightarrow>
          (let targetNames = ([] :: string list);
               targetCount = length targetNames in
           seq (seq [cout ''  Target Count: '', cout (dec targetCount), cout ''\<newline>'']
                # map (printTarget schema targetNames) [0..<targetCount])))"

subsection \<open>The traversal (lines 245--274)\<close>

text \<open>The chain of tests on the header, lines 253--267.\<close>

definition printTypeSpecific :: "IObject \<Rightarrow> unit cxx" where
  "printTypeSpecific node =
     (let header = getHeader node in
      if IPolyMesh_matches header then printPolyMesh node
      else if ISubD_matches header then printSubD node
      else if IFaceSet_matches header then printFaceSet node
      else if ICurves_matches header then printCurves node
      else if IXform_matches header then printXform node
      else if IMaterial_matches header then printMaterial node
      else cout ''Object type ignored.\<newline>'')"

text \<open>
  \<open>printNodes\<close> is the function of the source; \<open>printChildren\<close> is its loop over the
  children from the current index on, \<open>printChild\<close> one turn of the loop.
\<close>

function printNodes :: "IObject \<Rightarrow> unit cxx"
  and printChildren :: "(exn + IObject) list \<Rightarrow> unit cxx"
  and printChild :: "exn + IObject \<Rightarrow> unit cxx"
where
  "printNodes (IObject header sch children) =
     seq [cout ''Node name: '', cout (header_getName header), cout ''\<newline>'',
          cout ''Node full name: '', cout (header_getFullName header), cout ''\<newline>'',
          cout ''MetaData: '', cout (header_getMetaData_serialize header), cout ''\<newline>'',
          printTypeSpecific (IObject header sch children),
          printChildren children]"
| "printChildren [] = skip"
| "printChildren (c # cs) = seq [printChild c, printChildren cs]"
| "printChild (Inl e) = throw e"
| "printChild (Inr child) = printNodes child"
  by pat_completeness auto
termination
  by (relation "measure (case_sum size (case_sum (size_list (size_sum (\<lambda>_. 0) size))
        (size_sum (\<lambda>_. 0) size)))") auto

subsection \<open>Opening the archive (lines 276--289)\<close>

definition printInfo :: "IFactory \<Rightarrow> string \<Rightarrow> unit cxx" where
  "printInfo factory file =
     (case factory file of
        Inl e \<Rightarrow> throw e
      | Inr archive \<Rightarrow>
          (let fileValid = archive_valid archive in
           seq [cout ''\<newline>file '', cout file,
                cout (if fileValid then [] else '' (invalid)''), cout '':\<newline>\<newline>'',
                if fileValid then
                  seq [cout ''file name: '', cout (archive_getName archive), cout ''\<newline>'',
                       case archive_getTop archive of
                         Inl e \<Rightarrow> throw e
                       | Inr root \<Rightarrow> printNodes root]
                else skip]))"

subsection \<open>The entry point (lines 291--315)\<close>

text \<open>
  \<^verbatim>\<open>fuzz_utils.h\<close> is not among the sources. Its helpers are parameters of the model:
  \<open>buf_to_file\<close> gives the path of the temporary file or \<^verbatim>\<open>NULL\<close> (\<open>None\<close>),
  \<open>delete_file\<close> its status, zero for success. The calls to them are recorded in a trace,
  in the order in which they happen, together with the text sent to \<^verbatim>\<open>std::cout\<close>.
\<close>

record fuzz_utils =
  buf_to_file :: "8 word list \<Rightarrow> string option"
  delete_file :: "string \<Rightarrow> int"

datatype event = Ignore_stdout | Buf_to_file "8 word list" | Cout string | Delete_file string

text \<open>
  An invocation ends in one of three ways: it returns a status, it ends the process with
  \<^verbatim>\<open>exit\<close>, or an exception leaves it uncaught.
\<close>

datatype outcome = Returned int | Exited int | Uncaught exn

definition EXIT_SUCCESS :: int where
  "EXIT_SUCCESS = 0"

definition EXIT_FAILURE :: int where
  "EXIT_FAILURE = 1"

record invocation =
  trace :: "event list"
  outcome :: outcome
  initialized_after :: bool

text \<open>
  The \<^verbatim>\<open>try\<close> block with its handler (lines 304--308): an exception derived from
  \<^verbatim>\<open>std::exception\<close> is caught and its message printed with \<^verbatim>\<open>std::endl\<close>; any other
  thrown object matches no handler and leaves the block.
\<close>

definition try_printInfo :: "IFactory \<Rightarrow> string \<Rightarrow> unit cxx" where
  "try_printInfo factory file =
     (case printInfo factory file of
        (out, Inr u) \<Rightarrow> (out, Inr u)
      | (out, Inl (StdException what)) \<Rightarrow> (out @ what @ ''\<newline>'', Inr ())
      | (out, Inl NonStdThrow) \<Rightarrow> (out, Inl NonStdThrow))"

text \<open>The static flag \<^verbatim>\<open>initialized\<close> is passed in and returned in \<open>initialized_after\<close>.\<close>

definition LLVMFuzzerTestOneInput ::
    "fuzz_utils \<Rightarrow> IFactory \<Rightarrow> bool \<Rightarrow> 8 word list \<Rightarrow> invocation" where
  "LLVMFuzzerTestOneInput utils factory initialized data =
     (let tr0 = (if \<not> initialized then [Ignore_stdout] else []) in
      case buf_to_file utils data of
        None \<Rightarrow>
          \<lparr>trace = tr0 @ [Buf_to_file data], outcome = Exited EXIT_FAILURE,
           initialized_after = True\<rparr>
      | Some file \<Rightarrow>
          (case try_printInfo factory file of
             (out, Inl e) \<Rightarrow>
               \<lparr>trace = tr0 @ [Buf_to_file data, Cout out], outcome = Uncaught e,
                initialized_after = True\<rparr>
           | (out, Inr _) \<Rightarrow>
               \<lparr>trace = tr0 @ [Buf_to_file data, Cout out, Delete_file file],
                outcome = (if delete_file utils file \<noteq> 0 then Exited EXIT_FAILURE
                           else Returned EXIT_SUCCESS),
                initialized_after = True\<rparr>))"

text \<open>What a trace printed, and the paths it passed to \<open>delete_file\<close>.\<close>

fun printed :: "event list \<Rightarrow> string" where
  "printed [] = []"
| "printed (Cout s # tr) = s @ printed tr"
| "printed (_ # tr) = printed tr"

fun deleted :: "event list \<Rightarrow> string list" where
  "deleted [] = []"
| "deleted (Delete_file p # tr) = p # deleted tr"
| "deleted (_ # tr) = deleted tr"

section \<open>The specification's descriptions\<close>

text \<open>
  The definitions of this section follow the words of the specification, not the source;
  the theorems below compare them with the functions of the source.
\<close>

subsection \<open>Classification in a fixed priority order\<close>

datatype kind = PolyMesh | SubD | FaceSet | Curves | Xform | Material

definition priority_order :: "kind list" where
  "priority_order = [PolyMesh, SubD, FaceSet, Curves, Xform, Material]"

fun matches :: "kind \<Rightarrow> ObjectHeader \<Rightarrow> bool" where
  "matches PolyMesh h = IPolyMesh_matches h"
| "matches SubD h = ISubD_matches h"
| "matches FaceSet h = IFaceSet_matches h"
| "matches Curves h = ICurves_matches h"
| "matches Xform h = IXform_matches h"
| "matches Material h = IMaterial_matches h"

fun report :: "kind \<Rightarrow> IObject \<Rightarrow> unit cxx" where
  "report PolyMesh node = printPolyMesh node"
| "report SubD node = printSubD node"
| "report FaceSet node = printFaceSet node"
| "report Curves node = printCurves node"
| "report Xform node = printXform node"
| "report Material node = printMaterial node"

text \<open>The three lines every node block starts with: short name, full path, metadata.\<close>

definition node_heading :: "IObject \<Rightarrow> string" where
  "node_heading node =
     ''Node name: '' @ header_getName (getHeader node) @ ''\<newline>'' @
     ''Node full name: '' @ header_getFullName (getHeader node) @ ''\<newline>'' @
     ''MetaData: '' @ header_getMetaData_serialize (getHeader node) @ ''\<newline>''"

subsection \<open>Depth-first pre-order\<close>

text \<open>
  The nodes of a tree in pre-order: the node itself, then the pre-order of each child, the
  children in index order. A child that cannot be loaded stands in the sequence as the
  exception raised for it.
\<close>

function preorder :: "IObject \<Rightarrow> (exn + IObject) list"
  and preorder_children :: "(exn + IObject) list \<Rightarrow> (exn + IObject) list"
  and preorder_child :: "exn + IObject \<Rightarrow> (exn + IObject) list"
where
  "preorder (IObject header sch children) =
     Inr (IObject header sch children) # preorder_children children"
| "preorder_children [] = []"
| "preorder_children (c # cs) = preorder_child c @ preorder_children cs"
| "preorder_child (Inl e) = [Inl e]"
| "preorder_child (Inr child) = preorder child"
  by pat_completeness auto
termination
  by (relation "measure (case_sum size (case_sum (size_list (size_sum (\<lambda>_. 0) size))
        (size_sum (\<lambda>_. 0) size)))") auto

text \<open>
  Visiting one element of that sequence: the block of the node, which is its heading and
  its kind-specific report and nothing of its children; or the exception of the child that
  could not be loaded.
\<close>

fun visit :: "exn + IObject \<Rightarrow> unit cxx" where
  "visit (Inl e) = throw e"
| "visit (Inr node) = seq [cout (node_heading node), printTypeSpecific node]"

subsection \<open>The report of one property\<close>

text \<open>
  What a property report reads from a schema. \<open>source_normals\<close> is \<open>None\<close> for a schema
  class without a normals parameter.
\<close>

record attribute_source =
  source_names :: "string list"
  source_samples :: "nat lib"
  source_normals :: "nat lib option"
  source_uvs :: "nat lib"
  source_arbGeomParams :: "ICompoundProperty lib"

definition of_mesh :: "IPolyMeshSchema \<Rightarrow> attribute_source" where
  "of_mesh schema =
     \<lparr>source_names = mesh_propertyNames schema,
      source_samples = mesh_getNumSamples schema,
      source_normals = Some (mesh_getNormalsParam_getNumSamples schema),
      source_uvs = mesh_getUVsParam_getNumSamples schema,
      source_arbGeomParams = mesh_getArbGeomParams schema\<rparr>"

definition of_curves :: "ICurvesSchema \<Rightarrow> attribute_source" where
  "of_curves schema =
     \<lparr>source_names = curves_propertyNames schema,
      source_samples = curves_getNumSamples schema,
      source_normals = Some (curves_getNormalsParam_getNumSamples schema),
      source_uvs = curves_getUVsParam_getNumSamples schema,
      source_arbGeomParams = curves_getArbGeomParams schema\<rparr>"

definition of_subd :: "ISubDSchema \<Rightarrow> attribute_source" where
  "of_subd schema =
     \<lparr>source_names = subd_propertyNames schema,
      source_samples = subd_getNumSamples schema,
      source_normals = None,
      source_uvs = subd_getUVsParam_getNumSamples schema,
      source_arbGeomParams = subd_getArbGeomParams schema\<rparr>"

text \<open>The four well-known names of the specification (texture coordinates have two).\<close>

definition well_known :: "string \<Rightarrow> bool" where
  "well_known name = (name \<in> set [''P'', ''N'', ''uv'', ''st'', ''.arbGeomParams''])"

definition name_line :: "nat \<Rightarrow> string \<Rightarrow> string" where
  "name_line p name = ''  Property['' @ dec p @ ''] name: '' @ name @ ''\<newline>''"

definition sample_count_line :: "nat lib \<Rightarrow> unit cxx" where
  "sample_count_line r = seq [cout ''    Sample Count: '', cout_size r, cout ''\<newline>'']"

text \<open>
  The generic-parameter group: the number of its properties, then the name of each, in
  index order.
\<close>

definition group_report :: "ICompoundProperty lib \<Rightarrow> unit cxx" where
  "group_report r =
     (case r of
        Inl e \<Rightarrow> throw e
      | Inr geoParam \<Rightarrow>
          cout (''    GeomParams Count: '' @ dec (length (compound_propertyNames geoParam)) @
                ''.\<newline>'' @
                concat (map (\<lambda>(g, name). ''    arbGeomParam['' @ dec g @ ''] name: '' @ name @
                                  ''\<newline>'')
                          (enumerate 0 (compound_propertyNames geoParam)))))"

text \<open>
  What follows the name line of a property: a sample count for the position, for the
  normal where the schema has normals, and for the texture coordinates; the report of the
  group for the generic-parameter group; nothing for any other name.
\<close>

definition property_detail :: "attribute_source \<Rightarrow> string \<Rightarrow> unit cxx" where
  "property_detail src name =
     (if name = ''P'' then sample_count_line (source_samples src)
      else if name = ''N'' \<and> source_normals src \<noteq> None
        then sample_count_line (the (source_normals src))
      else if name = ''uv'' \<or> name = ''st'' then sample_count_line (source_uvs src)
      else if name = ''.arbGeomParams'' then group_report (source_arbGeomParams src)
      else skip)"

definition property_report :: "attribute_source \<Rightarrow> nat \<times> string \<Rightarrow> unit cxx" where
  "property_report src = (\<lambda>(p, name). seq [cout (name_line p name), property_detail src name])"

definition attributes_report :: "string \<Rightarrow> attribute_source \<Rightarrow> unit cxx" where
  "attributes_report label src =
     seq (cout (''  '' @ label @ '' Property Count: '' @ dec (length (source_names src)) @
                ''.\<newline>'')
          # map (property_report src) (enumerate 0 (source_names src)))"

section \<open>Example inputs\<close>

definition plain_header :: ObjectHeader where
  "plain_header =
     \<lparr>header_getName = ''ABC'', header_getFullName = ''/'',
      header_getMetaData_serialize = [],
      IPolyMesh_matches = False, ISubD_matches = False, IFaceSet_matches = False,
      ICurves_matches = False, IXform_matches = False, IMaterial_matches = False\<rparr>"

definition xform_schema :: IXformSchema where
  "xform_schema = \<lparr>xform_getNumSamples = Inr 3, xform_getNumOps = Inr 2\<rparr>"

definition material_schema :: IMaterialSchema where
  "material_schema =
     \<lparr>material_getShaderTypesForTarget = (\<lambda>target. Inr [''surface'']),
      material_getShaderParameters =
        (\<lambda>target shader. Inr \<lparr>compound_propertyNames = [''Kd'']\<rparr>)\<rparr>"

definition subd_schema :: ISubDSchema where
  "subd_schema =
     \<lparr>subd_propertyNames = [''N''], subd_getNumSamples = Inr 4,
      subd_getUVsParam_getNumSamples = Inr 4,
      subd_getArbGeomParams = Inr \<lparr>compound_propertyNames = []\<rparr>,
      subd_getSubdivisionSchemeProperty = Inr ''1'',
      subd_getFaceVaryingInterpolateBoundaryProperty = Inr ''1'',
      subd_getFaceVaryingPropagateCornersProperty = Inr ''1'',
      subd_getInterpolateBoundaryProperty = Inr ''1''\<rparr>"

definition mesh_schema :: IPolyMeshSchema where
  "mesh_schema =
     \<lparr>mesh_propertyNames = [''.arbGeomParams''], mesh_getNumSamples = Inr 4,
      mesh_getNormalsParam_getNumSamples = Inr 4,
      mesh_getUVsParam_getNumSamples = Inr 4,
      mesh_getArbGeomParams = Inr \<lparr>compound_propertyNames = [''Cd'']\<rparr>\<rparr>"

text \<open>A node's schemas when every wrapper but the curves one can be constructed.\<close>

definition all_schemas :: schemas where
  "all_schemas =
     \<lparr>as_IPolyMesh = Inr mesh_schema, as_ISubD = Inr subd_schema,
      as_IFaceSet = Inr \<lparr>faceset_getNumSamples = Inr 1\<rparr>,
      as_ICurves = Inl (StdException ''no curves''),
      as_IXform = Inr xform_schema, as_IMaterial = Inr material_schema\<rparr>"

definition xform_node :: IObject where
  "xform_node =
     IObject (plain_header\<lparr>header_getName := ''xf'', header_getFullName := ''/xf'',
                IXform_matches := True\<rparr>) all_schemas []"

definition material_node :: IObject where
  "material_node =
     IObject (plain_header\<lparr>header_getName := ''mat'', header_getFullName := ''/mat'',
                IMaterial_matches := True\<rparr>) all_schemas []"

definition invalid_archive :: IArchive where
  "invalid_archive =
     \<lparr>archive_valid = False, archive_getName = [], archive_getTop = Inr xform_node\<rparr>"

definition minimal_archive :: IArchive where
  "minimal_archive =
     \<lparr>archive_valid = True, archive_getName = ''/tmp/fuzz-1'', archive_getTop = Inr xform_node\<rparr>"

text \<open>An archive whose root loads and whose second child throws a non-standard object.\<close>

definition broken_archive :: IArchive where
  "broken_archive =
     \<lparr>archive_valid = True, archive_getName = ''/tmp/fuzz-1'',
      archive_getTop = Inr (IObject plain_header all_schemas [Inr xform_node, Inl NonStdThrow])\<rparr>"

text \<open>An archive whose root loads and whose first child throws a standard exception.\<close>

definition truncated_archive :: IArchive where
  "truncated_archive =
     \<lparr>archive_valid = True, archive_getName = ''/tmp/fuzz-1'',
      archive_getTop =
        Inr (IObject plain_header all_schemas [Inl (StdException ''Ogawa: bad index'')])\<rparr>"

definition utils_ok :: fuzz_utils where
  "utils_ok = \<lparr>buf_to_file = (\<lambda>data. Some ''/tmp/fuzz-1''), delete_file = (\<lambda>path. 0)\<rparr>"

definition utils_no_file :: fuzz_utils where
  "utils_no_file = \<lparr>buf_to_file = (\<lambda>data. None), delete_file = (\<lambda>path. 0)\<rparr>"

definition utils_no_delete :: fuzz_utils where
  "utils_no_delete = \<lparr>buf_to_file = (\<lambda>data. Some ''/tmp/fuzz-1''), delete_file = (\<lambda>path. - 1)\<rparr>"

text \<open>A helper that answers with another path, as for a second temporary file.\<close>

definition utils_second :: fuzz_utils where
  "utils_second = \<lparr>buf_to_file = (\<lambda>data. Some ''/tmp/fuzz-2''), delete_file = (\<lambda>path. 0)\<rparr>"

text \<open>A factory that opens the same valid archive at every path and names it by the path.\<close>

definition open_minimal :: IFactory where
  "open_minimal path = Inr (minimal_archive\<lparr>archive_getName := path\<rparr>)"

text \<open>
  The minimal archive with a transform: the root container, which matches no kind, and the
  transform as its only child.
\<close>

definition container_root :: IObject where
  "container_root = IObject plain_header all_schemas [Inr xform_node]"

definition rooted_archive :: IArchive where
  "rooted_archive =
     \<lparr>archive_valid = True, archive_getName = ''/tmp/fuzz-1'',
      archive_getTop = Inr container_root\<rparr>"

section \<open>Sequencing and printing\<close>

lemma seq_Inr [simp]: "seq ((out, Inr u) # ss) = (out @ fst (seq ss), snd (seq ss))"
  by (simp split: prod.splits)

lemma seq_Inl [simp]: "seq ((out, Inl e) # ss) = (out, Inl e)"
  by simp

declare seq.simps(2) [simp del]

lemma seq_cout [simp]: "seq (cout s # ss) = (s @ fst (seq ss), snd (seq ss))"
  by (simp add: cout_def)

lemma seq_throw [simp]: "seq (throw e # ss) = ([], Inl e)"
  by (simp add: throw_def)

lemma seq_skip [simp]: "seq (skip # ss) = seq ss"
  by (simp add: skip_def)

lemma seq_single: "seq [a] = a"
  by (cases a; cases "snd a") auto

lemma seq_append: "seq (xs @ ys) = seq (seq xs # ys)"
proof (induction xs)
  case Nil
  show ?case by (simp add: seq.simps(2))
next
  case (Cons x xs)
  obtain out r where x: "x = (out, r)" by (cases x)
  show ?case
  proof (cases r)
    case (Inl e)
    with x show ?thesis by simp
  next
    case (Inr u)
    with x Cons show ?thesis
      by (cases "seq xs"; cases "snd (seq xs)") (auto simp: seq.simps(2) split: prod.splits)
  qed
qed

lemma seq_seq_last: "seq (xs @ [seq ys]) = seq (xs @ ys)"
proof -
  have "seq (xs @ [seq ys]) = seq (seq xs # [seq ys])"
    by (rule seq_append)
  also have "\<dots> = seq (seq xs # ys)"
    by (cases "seq xs"; cases "snd (seq xs)") (auto simp: seq_single)
  also have "\<dots> = seq (xs @ ys)"
    by (rule seq_append [symmetric])
  finally show ?thesis .
qed

lemma dec_digit: "n < 10 \<Longrightarrow> dec n = [digit n]"
  by (simp add: dec.simps)

lemma dec_0: "dec 0 = ''0''"
  by (simp add: dec.simps digit_def)

lemma seq_couts: "seq (map (\<lambda>x. cout (f x)) xs) = cout (concat (map f xs))"
  by (induction xs) (simp_all add: cout_def)

lemma map_upt_nth_enumerate:
  "map (\<lambda>p. f p (xs ! p)) [0..<length xs] = map (\<lambda>(p, x). f p x) (enumerate 0 xs)"
  by (rule nth_equalityI) (simp_all add: nth_enumerate_eq)

section \<open>The traversal is the pre-order sequence of node blocks\<close>

lemma traversal_preorder:
  "printNodes node = seq (map visit (preorder node))"
  "printChildren cs = seq (map visit (preorder_children cs))"
  "printChild c = seq (map visit (preorder_child c))"
proof (induction node and cs and c rule: printNodes_printChildren_printChild.induct)
  case (1 header sch children)
  let ?node = "IObject header sch children"
  let ?rest = "map visit (preorder_children children)"
  have "printNodes ?node = seq ([cout (node_heading ?node), printTypeSpecific ?node] @ [seq ?rest])"
    using 1 by (simp add: node_heading_def)
  also have "\<dots> = seq ([cout (node_heading ?node), printTypeSpecific ?node] @ ?rest)"
    by (rule seq_seq_last)
  also have "\<dots> = seq (seq [cout (node_heading ?node), printTypeSpecific ?node] # ?rest)"
    by (rule seq_append)
  finally show ?case by simp
next
  case 2
  show ?case by (simp add: skip_def)
next
  case (3 c cs)
  let ?first = "map visit (preorder_child c)"
  let ?rest = "map visit (preorder_children cs)"
  have "printChildren (c # cs) = seq (seq ?first # [seq ?rest])"
    using 3 by simp
  also have "\<dots> = seq (?first @ [seq ?rest])"
    by (rule seq_append [symmetric])
  also have "\<dots> = seq (?first @ ?rest)"
    by (rule seq_seq_last)
  finally show ?case by simp
next
  case (4 e)
  show ?case by (simp add: throw_def)
next
  case (5 child)
  then show ?case by simp
qed

section \<open>The three property reports follow one scheme\<close>

lemma printArbGeomParams_group_report: "printArbGeomParams r = group_report r"
proof (cases r)
  case (Inl e)
  then show ?thesis by (simp add: printArbGeomParams_def group_report_def)
next
  case (Inr geoParam)
  let ?names = "compound_propertyNames geoParam"
  let ?line = "\<lambda>g name. ''    arbGeomParam['' @ dec g @ ''] name: '' @ name @ ''\<newline>''"
  have line: "seq [cout ''    arbGeomParam['', cout (dec g), cout ''] name: '', cout name,
      cout ''\<newline>''] = cout (?line g name)" for g name
    by (simp add: cout_def)
  have "map (\<lambda>g. cout (?line g (?names ! g))) [0..<length ?names] =
      map (\<lambda>(g, name). cout (?line g name)) (enumerate 0 ?names)"
    by (rule map_upt_nth_enumerate)
  also have "\<dots> = map (\<lambda>x. cout ((\<lambda>(g, name). ?line g name) x)) (enumerate 0 ?names)"
    by (simp add: case_prod_beta)
  finally have "seq (map (\<lambda>g. cout (?line g (?names ! g))) [0..<length ?names]) =
      cout (concat (map (\<lambda>(g, name). ?line g name) (enumerate 0 ?names)))"
    by (simp only: seq_couts)
  with Inr show ?thesis
    by (simp add: printArbGeomParams_def group_report_def line cout_def)
qed

lemma count_line:
  "seq (seq [cout a, cout b, cout c] # ss) = seq (cout (a @ b @ c) # ss)"
  by (simp add: cout_def)

lemma name_line_seq:
  "seq [seq [cout ''  Property['', cout (dec p), cout ''] name: '', cout name, cout ''\<newline>''], d] =
   seq [cout (name_line p name), d]"
  by (simp add: cout_def name_line_def)

lemma property_report_pair:
  "property_report src (p, name) = seq [cout (name_line p name), property_detail src name]"
  by (simp add: property_report_def)

lemma scheme_of_loop:
  assumes "\<And>p name. body p name = property_report src (p, name)"
    and "source_names src = names"
  shows "seq (seq [cout (''  '' @ label @ '' Property Count: ''), cout (dec (length names)),
                   cout ''.\<newline>'']
              # map (\<lambda>p. body p (names ! p)) [0..<length names]) =
         attributes_report label src"
proof -
  have "map (\<lambda>p. body p (names ! p)) [0..<length names] =
      map (\<lambda>(p, name). body p name) (enumerate 0 names)"
    by (rule map_upt_nth_enumerate)
  also have "\<dots> = map (property_report src) (enumerate 0 names)"
    by (simp add: assms(1))
  finally show ?thesis
    by (simp only: count_line attributes_report_def assms(2) append_assoc)
qed

lemma mesh_detail:
  "(if name = ''P'' then
        seq [cout ''    Sample Count: '', cout_size (mesh_getNumSamples schema), cout ''\<newline>'']
      else if name = ''N'' then
        seq [cout ''    Sample Count: '', cout_size (mesh_getNormalsParam_getNumSamples schema),
             cout ''\<newline>'']
      else if name = ''uv'' \<or> name = ''st'' then
        seq [cout ''    Sample Count: '', cout_size (mesh_getUVsParam_getNumSamples schema),
             cout ''\<newline>'']
      else if name = ''.arbGeomParams'' then printArbGeomParams (mesh_getArbGeomParams schema)
      else skip) =
   property_detail (of_mesh schema) name"
  by (simp add: property_detail_def of_mesh_def sample_count_line_def
      printArbGeomParams_group_report)

lemma printMeshAttributes_scheme:
  "printMeshAttributes schema = attributes_report ''Mesh'' (of_mesh schema)"
proof -
  have "source_names (of_mesh schema) = mesh_propertyNames schema"
    by (simp add: of_mesh_def)
  then have "seq (seq [cout (''  '' @ ''Mesh'' @ '' Property Count: ''),
                       cout (dec (length (mesh_propertyNames schema))), cout ''.\<newline>'']
                  # map (\<lambda>p. property_report (of_mesh schema) (p, mesh_propertyNames schema ! p))
                      [0..<length (mesh_propertyNames schema)]) =
             attributes_report ''Mesh'' (of_mesh schema)"
    by (rule scheme_of_loop [where body = "\<lambda>p name. property_report (of_mesh schema) (p, name)",
          OF refl])
  then show ?thesis
    by (simp only: printMeshAttributes_def Let_def name_line_seq mesh_detail
        property_report_pair append.simps)
qed

lemma curves_detail:
  "(if name = ''P'' then
        seq [cout ''    Sample Count: '', cout_size (curves_getNumSamples schema), cout ''\<newline>'']
      else if name = ''N'' then
        seq [cout ''    Sample Count: '', cout_size (curves_getNormalsParam_getNumSamples schema),
             cout ''\<newline>'']
      else if name = ''uv'' \<or> name = ''st'' then
        seq [cout ''    Sample Count: '', cout_size (curves_getUVsParam_getNumSamples schema),
             cout ''\<newline>'']
      else if name = ''.arbGeomParams'' then printArbGeomParams (curves_getArbGeomParams schema)
      else skip) =
   property_detail (of_curves schema) name"
  by (simp add: property_detail_def of_curves_def sample_count_line_def
      printArbGeomParams_group_report)

lemma printCurvesAttributes_scheme:
  "printCurvesAttributes schema = attributes_report ''Curves'' (of_curves schema)"
proof -
  have "source_names (of_curves schema) = curves_propertyNames schema"
    by (simp add: of_curves_def)
  then have "seq (seq [cout (''  '' @ ''Curves'' @ '' Property Count: ''),
                       cout (dec (length (curves_propertyNames schema))), cout ''.\<newline>'']
                  # map (\<lambda>p. property_report (of_curves schema) (p, curves_propertyNames schema ! p))
                      [0..<length (curves_propertyNames schema)]) =
             attributes_report ''Curves'' (of_curves schema)"
    by (rule scheme_of_loop [where body = "\<lambda>p name. property_report (of_curves schema) (p, name)",
          OF refl])
  then show ?thesis
    by (simp only: printCurvesAttributes_def Let_def name_line_seq curves_detail
        property_report_pair append.simps)
qed

lemma subd_detail:
  "(if name = ''P'' then
        seq [cout ''    Sample Count: '', cout_size (subd_getNumSamples schema), cout ''\<newline>'']
      else if name = ''uv'' \<or> name = ''st'' then
        seq [cout ''    Sample Count: '', cout_size (subd_getUVsParam_getNumSamples schema),
             cout ''\<newline>'']
      else if name = ''.arbGeomParams'' then printArbGeomParams (subd_getArbGeomParams schema)
      else skip) =
   property_detail (of_subd schema) name"
  by (simp add: property_detail_def of_subd_def sample_count_line_def
      printArbGeomParams_group_report)

lemma printSubDAttributes_scheme:
  "printSubDAttributes schema = attributes_report ''SubD'' (of_subd schema)"
proof -
  have "source_names (of_subd schema) = subd_propertyNames schema"
    by (simp add: of_subd_def)
  then have "seq (seq [cout (''  '' @ ''SubD'' @ '' Property Count: ''),
                       cout (dec (length (subd_propertyNames schema))), cout ''.\<newline>'']
                  # map (\<lambda>p. property_report (of_subd schema) (p, subd_propertyNames schema ! p))
                      [0..<length (subd_propertyNames schema)]) =
             attributes_report ''SubD'' (of_subd schema)"
    by (rule scheme_of_loop [where body = "\<lambda>p name. property_report (of_subd schema) (p, name)",
          OF refl])
  then show ?thesis
    by (simp only: printSubDAttributes_def Let_def name_line_seq subd_detail
        property_report_pair append.simps)
qed


section \<open>The inspection of the example archives\<close>

lemma printInfo_truncated:
  "printInfo (\<lambda>path. Inr truncated_archive) ''/tmp/fuzz-1'' =
     (''\<newline>file /tmp/fuzz-1:\<newline>\<newline>file name: /tmp/fuzz-1\<newline>'' @
      ''Node name: ABC\<newline>Node full name: /\<newline>MetaData: \<newline>Object type ignored.\<newline>'',
      Inl (StdException ''Ogawa: bad index''))"
  by (simp add: printInfo_def truncated_archive_def plain_header_def printTypeSpecific_def)

lemma printInfo_broken:
  "printInfo (\<lambda>path. Inr broken_archive) ''/tmp/fuzz-1'' =
     (''\<newline>file /tmp/fuzz-1:\<newline>\<newline>file name: /tmp/fuzz-1\<newline>'' @
      ''Node name: ABC\<newline>Node full name: /\<newline>MetaData: \<newline>Object type ignored.\<newline>'' @
      ''Node name: xf\<newline>Node full name: /xf\<newline>MetaData: \<newline>'' @
      ''  Sample Count: 3\<newline>  Number of Ops: 2\<newline>'',
      Inl NonStdThrow)"
  by (simp add: printInfo_def broken_archive_def plain_header_def printTypeSpecific_def
      xform_node_def all_schemas_def xform_schema_def printXform_def cout_size_def
      dec_digit digit_def skip_def)

lemma printInfo_open_minimal:
  "printInfo open_minimal path =
     (''\<newline>file '' @ path @ '':\<newline>\<newline>file name: '' @ path @ ''\<newline>'' @
      ''Node name: xf\<newline>Node full name: /xf\<newline>MetaData: \<newline>'' @
      ''  Sample Count: 3\<newline>  Number of Ops: 2\<newline>'',
      Inr ())"
  by (simp add: printInfo_def open_minimal_def minimal_archive_def plain_header_def
      printTypeSpecific_def xform_node_def all_schemas_def xform_schema_def printXform_def
      cout_size_def dec_digit digit_def skip_def)

lemma printTypeSpecific_find:
  "printTypeSpecific node =
     (case find (\<lambda>k. matches k (getHeader node)) priority_order of
        Some k \<Rightarrow> report k node
      | None \<Rightarrow> cout ''Object type ignored.\<newline>'')"
  by (simp add: printTypeSpecific_def priority_order_def)

section \<open>The claims\<close>

text \<open>
  C3. For every visited node, the header is tested against the known kinds in the fixed
  priority order mesh, subdivision surface, face set, curve, transform, material. The
  report of the first kind that matches is printed, and only that one; if no kind
  matches, the line \<^verbatim>\<open>Object type ignored.\<close> is printed instead. The theorem states it for
  every call of \<open>printNodes\<close>: between the heading of the node and the visit of its
  children stands the report of the first kind of \<open>priority_order\<close> that matches the header.
\<close>

theorem printNodes_first_match:
  "printNodes node =
     seq [cout (node_heading node),
          (case find (\<lambda>k. matches k (getHeader node)) priority_order of
             Some k \<Rightarrow> report k node
           | None \<Rightarrow> cout ''Object type ignored.\<newline>''),
          printChildren (getChildren node)]"
  by (cases node) (simp add: printTypeSpecific_def priority_order_def node_heading_def)

text \<open>
  C6. If the factory reports the opened archive as invalid, the output is the file line
  with the marker \<^verbatim>\<open> (invalid)\<close> after the file name, and nothing else: neither the line
  with the archive name nor any node report is printed, whatever the archive holds.
\<close>

theorem printInfo_invalid:
  assumes "factory file = Inr archive" and "\<not> archive_valid archive"
  shows "printInfo factory file = (''\<newline>file '' @ file @ '' (invalid):\<newline>\<newline>'', Inr ())"
  using assms by (simp add: printInfo_def)

theorem printInfo_invalid_witness:
  "printInfo (\<lambda>path. Inr invalid_archive) ''/tmp/fuzz-1'' =
     (''\<newline>file /tmp/fuzz-1 (invalid):\<newline>\<newline>'', Inr ())"
  using printInfo_invalid [of "\<lambda>path. Inr invalid_archive" "''/tmp/fuzz-1''" invalid_archive]
  by (simp add: invalid_archive_def)

text \<open>
  C7. For every node classified as a material, the report prints a target count of zero
  and nothing further: the list of target names is a local empty list, so the loop over
  the targets never runs, whatever the schema of the material would answer. The
  hypothesis is that the material wrapper of the node can be constructed; the report
  starts after that.
\<close>

theorem printMaterial_no_targets:
  assumes "as_IMaterial (getSchemas node) = Inr schema"
  shows "printMaterial node = (''  Target Count: 0\<newline>'', Inr ())"
  using assms by (simp add: printMaterial_def dec_0)

theorem printMaterial_no_targets_witness:
  "as_IMaterial (getSchemas material_node) = Inr material_schema \<and>
   printMaterial material_node = (''  Target Count: 0\<newline>'', Inr ())"
  using printMaterial_no_targets [of material_node material_schema]
  by (simp add: material_node_def all_schemas_def)

text \<open>
  C4. The traversal visits the nodes depth-first in pre-order. Running \<open>printNodes\<close> on a
  node is running, one after the other, the blocks of the nodes of its pre-order sequence:
  the block of a node (short name, full path, metadata, kind-specific report) comes before
  anything of its children, the children come in increasing index order, and this holds
  for every node, whatever its header matches. A throw ends the sequence where it
  happens. The second and third equations are the two steps of the recursion: after its
  own block a node always goes on to its children, and the children are taken from the
  first to the last.
\<close>

theorem printNodes_preorder:
  "printNodes node = seq (map visit (preorder node)) \<and>
   printNodes node = seq [visit (Inr node), printChildren (getChildren node)] \<and>
   printChildren (c # cs) = seq [printChild c, printChildren cs]"
proof -
  have "printNodes node = seq ([cout (node_heading node), printTypeSpecific node] @
      [printChildren (getChildren node)])"
    by (cases node) (simp add: node_heading_def)
  also have "\<dots> = seq [seq [cout (node_heading node), printTypeSpecific node],
      printChildren (getChildren node)]"
    by (rule seq_append)
  finally show ?thesis
    by (simp only: traversal_preorder(1) [symmetric] visit.simps printChildren.simps)
qed

text \<open>
  C5, as amended. For a mesh and for a curve, the report lists every declared property by
  name and adds a sample count after the names \<^verbatim>\<open>P\<close>, \<^verbatim>\<open>N\<close>, \<^verbatim>\<open>uv\<close> and \<^verbatim>\<open>st\<close>; after
  \<^verbatim>\<open>.arbGeomParams\<close> it adds the number of properties of the generic-parameter group and
  the name of each of them, not a sample count. For a subdivision surface the same holds
  except that \<^verbatim>\<open>N\<close> is listed by name only. Every other property is listed by name only.
\<close>

theorem attributes_follow_scheme:
  "printMeshAttributes mesh = attributes_report ''Mesh'' (of_mesh mesh) \<and>
   printCurvesAttributes curves = attributes_report ''Curves'' (of_curves curves) \<and>
   printSubDAttributes subd = attributes_report ''SubD'' (of_subd subd)"
  by (simp only: printMeshAttributes_scheme printCurvesAttributes_scheme
      printSubDAttributes_scheme)

text \<open>
  C5 as stated fails: \<^verbatim>\<open>N\<close> is one of the well-known names, and on a subdivision surface
  whose only property is \<^verbatim>\<open>N\<close> the report is the count line and the name line, with no
  sample count; \<^verbatim>\<open>.arbGeomParams\<close> is one of them, and on a mesh what follows its name is
  the count of the group and the names in it, not a sample count.
\<close>

theorem well_known_without_sample_count:
  "well_known ''N'' \<and>
   subd_propertyNames subd_schema = [''N''] \<and>
   printSubDAttributes subd_schema =
     (''  SubD Property Count: 1.\<newline>  Property[0] name: N\<newline>'', Inr ()) \<and>
   well_known ''.arbGeomParams'' \<and>
   mesh_propertyNames mesh_schema = [''.arbGeomParams''] \<and>
   printMeshAttributes mesh_schema =
     (''  Mesh Property Count: 1.\<newline>  Property[0] name: .arbGeomParams\<newline>'' @
      ''    GeomParams Count: 1.\<newline>    arbGeomParam[0] name: Cd\<newline>'', Inr ())"
  by (simp add: well_known_def subd_schema_def mesh_schema_def printSubDAttributes_def
      printMeshAttributes_def printArbGeomParams_def dec_digit digit_def)

text \<open>
  C9, as amended. For a valid minimal archive that holds a single transform node with zero
  children, that node being the only child of the root container and the root matching no
  known kind, the inspection prints two node blocks: the block of the root, which reports
  the type as ignored, and then exactly one block for the transform, which reports its
  sample count and its number of operations. Nothing follows: the transform has no
  children and the root has no other child.
\<close>

theorem printInfo_root_and_xform:
  assumes "factory file = Inr archive" and "archive_valid archive"
    and "archive_getTop archive = Inr root"
    and "find (\<lambda>k. matches k (getHeader root)) priority_order = None"
    and "getChildren root = [Inr node]" and "getChildren node = []"
    and "find (\<lambda>k. matches k (getHeader node)) priority_order = Some Xform"
    and "as_IXform (getSchemas node) = Inr schema"
    and "xform_getNumSamples schema = Inr n" and "xform_getNumOps schema = Inr m"
  shows "printInfo factory file =
     (''\<newline>file '' @ file @ '':\<newline>\<newline>'' @
      ''file name: '' @ archive_getName archive @ ''\<newline>'' @
      node_heading root @ ''Object type ignored.\<newline>'' @
      node_heading node @
      ''  Sample Count: '' @ dec n @ ''\<newline>'' @
      ''  Number of Ops: '' @ dec m @ ''\<newline>'', Inr ()) \<and>
     preorder root = [Inr root, Inr node]"
proof -
  have xform: "printTypeSpecific node =
      (''  Sample Count: '' @ dec n @ ''\<newline>'' @ ''  Number of Ops: '' @ dec m @ ''\<newline>'', Inr ())"
    using assms(7-10) by (simp add: printTypeSpecific_find printXform_def cout_size_def)
  have inner: "printNodes node =
      (node_heading node @ ''  Sample Count: '' @ dec n @ ''\<newline>'' @
       ''  Number of Ops: '' @ dec m @ ''\<newline>'', Inr ())"
    using assms(6) xform by (cases node) (simp add: node_heading_def skip_def)
  have ignored: "printTypeSpecific root = cout ''Object type ignored.\<newline>''"
    using assms(4) by (simp add: printTypeSpecific_find)
  have outer: "printNodes root =
      (node_heading root @ ''Object type ignored.\<newline>'' @ node_heading node @
       ''  Sample Count: '' @ dec n @ ''\<newline>'' @
       ''  Number of Ops: '' @ dec m @ ''\<newline>'', Inr ())"
    using assms(5) ignored inner by (cases root) (simp add: node_heading_def skip_def)
  have order: "preorder root = [Inr root, Inr node]"
    using assms(5,6) by (cases root; cases node) simp
  from assms(1-3) outer order show ?thesis
    by (simp add: printInfo_def)
qed

theorem printInfo_root_and_xform_witness:
  "printInfo (\<lambda>path. Inr rooted_archive) ''/tmp/fuzz-1'' =
     (''\<newline>file /tmp/fuzz-1:\<newline>\<newline>'' @
      ''file name: /tmp/fuzz-1\<newline>'' @
      ''Node name: ABC\<newline>Node full name: /\<newline>MetaData: \<newline>'' @
      ''Object type ignored.\<newline>'' @
      ''Node name: xf\<newline>Node full name: /xf\<newline>MetaData: \<newline>'' @
      ''  Sample Count: 3\<newline>'' @
      ''  Number of Ops: 2\<newline>'', Inr ()) \<and>
   preorder container_root = [Inr container_root, Inr xform_node]"
  using printInfo_root_and_xform [of "\<lambda>path. Inr rooted_archive" "''/tmp/fuzz-1''"
      rooted_archive container_root xform_node xform_schema 3 2]
  by (simp add: rooted_archive_def container_root_def xform_node_def plain_header_def
      all_schemas_def xform_schema_def node_heading_def priority_order_def dec_digit
      digit_def)

text \<open>
  C9 as stated fails on the minimal archive with a transform. The top object of the
  archive is the root container; the transform is its only child and has no children.
  The inspection prints the block of the root before the block of the transform, two
  node blocks and not one: the output is not the file lines followed by the block of
  the transform alone.
\<close>

theorem two_node_blocks:
  "archive_getTop rooted_archive = Inr container_root \<and>
   getChildren container_root = [Inr xform_node] \<and>
   getChildren xform_node = [] \<and>
   fst (printInfo (\<lambda>path. Inr rooted_archive) ''/tmp/fuzz-1'') =
     ''\<newline>file /tmp/fuzz-1:\<newline>\<newline>file name: /tmp/fuzz-1\<newline>'' @
     ''Node name: ABC\<newline>Node full name: /\<newline>MetaData: \<newline>Object type ignored.\<newline>'' @
     ''Node name: xf\<newline>Node full name: /xf\<newline>MetaData: \<newline>'' @
     ''  Sample Count: 3\<newline>  Number of Ops: 2\<newline>'' \<and>
   fst (printInfo (\<lambda>path. Inr rooted_archive) ''/tmp/fuzz-1'') \<noteq>
     ''\<newline>file /tmp/fuzz-1:\<newline>\<newline>file name: /tmp/fuzz-1\<newline>'' @
     ''Node name: xf\<newline>Node full name: /xf\<newline>MetaData: \<newline>'' @
     ''  Sample Count: 3\<newline>  Number of Ops: 2\<newline>''"
  by (simp add: printInfo_def rooted_archive_def container_root_def xform_node_def
      plain_header_def all_schemas_def xform_schema_def printTypeSpecific_def
      printXform_def cout_size_def dec_digit digit_def skip_def)

text \<open>
  C8, as amended. Two runs of the inspection on the same input print the same text
  provided the temporary-file helper answers both runs with the same path and the library
  answers alike for that path: the text printed is what the inspection of that path
  prints, and the path itself stands in its file line. The flag \<open>initialized\<close> is the only
  state an invocation hands to the next one; it decides whether \<open>ignore_stdout\<close> is called
  first and never changes the text. The status of \<open>delete_file\<close> does not change it either.
\<close>

theorem same_path_same_text:
  assumes "buf_to_file utils1 data = Some file" and "buf_to_file utils2 data = Some file"
    and "factory2 file = factory1 file"
  shows "printed (trace (LLVMFuzzerTestOneInput utils2 factory2 flag2 data)) =
       printed (trace (LLVMFuzzerTestOneInput utils1 factory1 flag1 data)) \<and>
     printed (trace (LLVMFuzzerTestOneInput utils1 factory1 flag1 data)) =
       fst (try_printInfo factory1 file) \<and>
     trace (LLVMFuzzerTestOneInput utils1 factory1 False data) =
       Ignore_stdout # trace (LLVMFuzzerTestOneInput utils1 factory1 True data) \<and>
     initialized_after (LLVMFuzzerTestOneInput utils1 factory1 flag1 data) = True"
proof -
  have same: "try_printInfo factory2 file = try_printInfo factory1 file"
    using assms(3) by (simp add: try_printInfo_def printInfo_def)
  have shown: "printed (trace (LLVMFuzzerTestOneInput utils factory flag data)) =
      fst (try_printInfo factory file)"
    if created: "buf_to_file utils data = Some file" for utils factory flag
  proof -
    obtain out r where run: "try_printInfo factory file = (out, r)"
      by (cases "try_printInfo factory file")
    show ?thesis
      using created run by (cases r; cases flag) (simp_all add: LLVMFuzzerTestOneInput_def)
  qed
  obtain out r where run: "try_printInfo factory1 file = (out, r)"
    by (cases "try_printInfo factory1 file")
  have flags: "trace (LLVMFuzzerTestOneInput utils1 factory1 False data) =
      Ignore_stdout # trace (LLVMFuzzerTestOneInput utils1 factory1 True data)"
    using assms(1) run by (cases r) (simp_all add: LLVMFuzzerTestOneInput_def)
  have after: "initialized_after (LLVMFuzzerTestOneInput utils1 factory1 flag1 data) = True"
    using assms(1) run by (cases r) (simp_all add: LLVMFuzzerTestOneInput_def)
  from shown [OF assms(1)] shown [OF assms(2)] same flags after show ?thesis
    by simp
qed

theorem same_path_same_text_witness:
  "buf_to_file utils_ok [65] = Some ''/tmp/fuzz-1'' \<and>
   buf_to_file utils_no_delete [65] = Some ''/tmp/fuzz-1'' \<and>
   initialized_after (LLVMFuzzerTestOneInput utils_ok open_minimal False [65]) = True \<and>
   printed (trace (LLVMFuzzerTestOneInput utils_no_delete open_minimal True [65])) =
     printed (trace (LLVMFuzzerTestOneInput utils_ok open_minimal False [65])) \<and>
   printed (trace (LLVMFuzzerTestOneInput utils_ok open_minimal False [65])) =
     ''\<newline>file /tmp/fuzz-1:\<newline>\<newline>file name: /tmp/fuzz-1\<newline>'' @
     ''Node name: xf\<newline>Node full name: /xf\<newline>MetaData: \<newline>'' @
     ''  Sample Count: 3\<newline>  Number of Ops: 2\<newline>''"
proof -
  have first: "buf_to_file utils_ok [65] = Some ''/tmp/fuzz-1''"
    by (simp add: utils_ok_def)
  have second: "buf_to_file utils_no_delete [65] = Some ''/tmp/fuzz-1''"
    by (simp add: utils_no_delete_def)
  have inspected: "fst (try_printInfo open_minimal ''/tmp/fuzz-1'') =
      ''\<newline>file /tmp/fuzz-1:\<newline>\<newline>file name: /tmp/fuzz-1\<newline>'' @
      ''Node name: xf\<newline>Node full name: /xf\<newline>MetaData: \<newline>'' @
      ''  Sample Count: 3\<newline>  Number of Ops: 2\<newline>''"
    by (simp add: try_printInfo_def printInfo_open_minimal)
  note runs = same_path_same_text [of utils_ok "[65]" "''/tmp/fuzz-1''" utils_no_delete
      open_minimal open_minimal True False, OF first second refl]
  from runs have "printed (trace (LLVMFuzzerTestOneInput utils_no_delete open_minimal True [65])) =
      printed (trace (LLVMFuzzerTestOneInput utils_ok open_minimal False [65]))"
    by (rule conjunct1)
  moreover from runs have "printed (trace (LLVMFuzzerTestOneInput utils_ok open_minimal False [65])) =
      fst (try_printInfo open_minimal ''/tmp/fuzz-1'')"
    by (rule conjunct1 [OF conjunct2])
  moreover from runs
  have "initialized_after (LLVMFuzzerTestOneInput utils_ok open_minimal False [65]) = True"
    by (rule conjunct2 [OF conjunct2 [OF conjunct2]])
  ultimately show ?thesis
    using first second inspected by (simp only: simp_thms)
qed

text \<open>
  C8 as stated fails when the helper answers the second run with another path, as a
  helper that writes a new temporary file each time does. The bytes and the archive are
  the same and the archive is valid, yet the two runs print different text: the file line
  and the line with the archive name carry the path.
\<close>

theorem different_paths_different_text:
  "buf_to_file utils_ok [65] = Some ''/tmp/fuzz-1'' \<and>
   buf_to_file utils_second [65] = Some ''/tmp/fuzz-2'' \<and>
   printed (trace (LLVMFuzzerTestOneInput utils_ok open_minimal False [65])) =
     ''\<newline>file /tmp/fuzz-1:\<newline>\<newline>file name: /tmp/fuzz-1\<newline>'' @
     ''Node name: xf\<newline>Node full name: /xf\<newline>MetaData: \<newline>'' @
     ''  Sample Count: 3\<newline>  Number of Ops: 2\<newline>'' \<and>
   printed (trace (LLVMFuzzerTestOneInput utils_second open_minimal True [65])) =
     ''\<newline>file /tmp/fuzz-2:\<newline>\<newline>file name: /tmp/fuzz-2\<newline>'' @
     ''Node name: xf\<newline>Node full name: /xf\<newline>MetaData: \<newline>'' @
     ''  Sample Count: 3\<newline>  Number of Ops: 2\<newline>'' \<and>
   printed (trace (LLVMFuzzerTestOneInput utils_second open_minimal
       (initialized_after (LLVMFuzzerTestOneInput utils_ok open_minimal False [65])) [65])) \<noteq>
     printed (trace (LLVMFuzzerTestOneInput utils_ok open_minimal False [65]))"
  by (simp add: LLVMFuzzerTestOneInput_def try_printInfo_def utils_ok_def utils_second_def
      printInfo_open_minimal)

text \<open>
  C10. The handler of the entry point catches only exceptions derived from
  \<^verbatim>\<open>std::exception\<close>. If the library throws an object of any other type while the archive
  is opened or traversed, the object leaves \<open>LLVMFuzzerTestOneInput\<close> uncaught, and
  \<open>delete_file\<close> is not called: the temporary file is not removed.
\<close>

theorem non_std_throw_escapes:
  assumes "buf_to_file utils data = Some file"
    and "snd (printInfo factory file) = Inl NonStdThrow"
  shows "outcome (LLVMFuzzerTestOneInput utils factory initialized data) = Uncaught NonStdThrow \<and>
     deleted (trace (LLVMFuzzerTestOneInput utils factory initialized data)) = []"
  using assms
  by (cases "printInfo factory file")
    (simp add: LLVMFuzzerTestOneInput_def try_printInfo_def)

theorem non_std_throw_escapes_witness:
  "buf_to_file utils_ok [1, 2] = Some ''/tmp/fuzz-1'' \<and>
   snd (printInfo (\<lambda>path. Inr (minimal_archive\<lparr>archive_getTop := Inl NonStdThrow\<rparr>))
          ''/tmp/fuzz-1'') = Inl NonStdThrow \<and>
   outcome (LLVMFuzzerTestOneInput utils_ok
       (\<lambda>path. Inr (minimal_archive\<lparr>archive_getTop := Inl NonStdThrow\<rparr>)) False [1, 2]) =
     Uncaught NonStdThrow \<and>
   deleted (trace (LLVMFuzzerTestOneInput utils_ok
       (\<lambda>path. Inr (minimal_archive\<lparr>archive_getTop := Inl NonStdThrow\<rparr>)) False [1, 2])) = []"
proof -
  have created: "buf_to_file utils_ok [1, 2] = Some ''/tmp/fuzz-1''"
    by (simp add: utils_ok_def)
  have thrown: "snd (printInfo (\<lambda>path. Inr (minimal_archive\<lparr>archive_getTop := Inl NonStdThrow\<rparr>))
      ''/tmp/fuzz-1'') = Inl NonStdThrow"
    by (simp add: printInfo_def minimal_archive_def)
  show ?thesis
    using created thrown non_std_throw_escapes [OF created thrown, of False] by simp
qed

text \<open>
  C1, as amended. For every input buffer for which the temporary file is created, and
  whenever the library either completes or throws an exception derived from
  \<^verbatim>\<open>std::exception\<close> (while opening or while traversing the archive), \<open>delete_file\<close> is
  called exactly once, on that file, after the inspection and as the last action of the
  invocation; the invocation returns success when the deletion succeeds and ends the
  process with the failure status when it does not.
\<close>

theorem temp_file_deleted_once:
  assumes "buf_to_file utils data = Some file"
    and "snd (printInfo factory file) \<noteq> Inl NonStdThrow"
  shows "deleted (trace (LLVMFuzzerTestOneInput utils factory initialized data)) = [file] \<and>
     trace (LLVMFuzzerTestOneInput utils factory initialized data) =
       (if initialized then [] else [Ignore_stdout]) @
       [Buf_to_file data, Cout (fst (try_printInfo factory file)), Delete_file file] \<and>
     outcome (LLVMFuzzerTestOneInput utils factory initialized data) =
       (if delete_file utils file = 0 then Returned EXIT_SUCCESS else Exited EXIT_FAILURE)"
proof -
  obtain out r where run: "printInfo factory file = (out, r)"
    by (cases "printInfo factory file")
  show ?thesis
  proof (cases r)
    case (Inr u)
    with run assms(1) show ?thesis
      by (simp add: LLVMFuzzerTestOneInput_def try_printInfo_def)
  next
    case (Inl e)
    with run assms(2) obtain what where "e = StdException what"
      by (cases e) auto
    with Inl run assms(1) show ?thesis
      by (simp add: LLVMFuzzerTestOneInput_def try_printInfo_def)
  qed
qed

theorem temp_file_deleted_once_witness:
  "buf_to_file utils_ok [65] = Some ''/tmp/fuzz-1'' \<and>
   snd (printInfo (\<lambda>path. Inr truncated_archive) ''/tmp/fuzz-1'') =
     Inl (StdException ''Ogawa: bad index'') \<and>
   deleted (trace (LLVMFuzzerTestOneInput utils_ok (\<lambda>path. Inr truncated_archive) False [65])) =
     [''/tmp/fuzz-1''] \<and>
   outcome (LLVMFuzzerTestOneInput utils_ok (\<lambda>path. Inr truncated_archive) False [65]) =
     Returned 0"
proof -
  have created: "buf_to_file utils_ok [65] = Some ''/tmp/fuzz-1''"
    by (simp add: utils_ok_def)
  have thrown: "snd (printInfo (\<lambda>path. Inr truncated_archive) ''/tmp/fuzz-1'') \<noteq> Inl NonStdThrow"
    by (simp add: printInfo_truncated)
  have ok: "delete_file utils_ok ''/tmp/fuzz-1'' = 0"
    by (simp add: utils_ok_def)
  show ?thesis
    using created ok temp_file_deleted_once [OF created thrown, of False]
    by (simp add: printInfo_truncated EXIT_SUCCESS_def)
qed

text \<open>
  C1 as stated fails on one exit path. The temporary file is created, the root and its
  first child are printed, loading the second child throws an object that is not a
  \<^verbatim>\<open>std::exception\<close>: the invocation ends with that object uncaught and \<open>delete_file\<close> has
  not been called.
\<close>

theorem temp_file_left_behind:
  "buf_to_file utils_ok [65] = Some ''/tmp/fuzz-1'' \<and>
   outcome (LLVMFuzzerTestOneInput utils_ok (\<lambda>path. Inr broken_archive) False [65]) =
     Uncaught NonStdThrow \<and>
   deleted (trace (LLVMFuzzerTestOneInput utils_ok (\<lambda>path. Inr broken_archive) False [65])) = []"
  by (simp add: LLVMFuzzerTestOneInput_def try_printInfo_def utils_ok_def printInfo_broken)

text \<open>
  C2, as amended. Any exception derived from \<^verbatim>\<open>std::exception\<close> that the library raises
  while the archive is opened or traversed is caught by the handler of the entry point and
  its message is printed, after what the inspection had printed; the invocation then
  returns success if the temporary file can be deleted. A failure to create the temporary
  file ends the process with the failure status before anything is inspected or printed;
  a failure to delete it ends the process with the failure status instead of the return.
\<close>

theorem std_exception_caught:
  "(buf_to_file utils data = None \<longrightarrow>
      outcome (LLVMFuzzerTestOneInput utils factory initialized data) = Exited EXIT_FAILURE \<and>
      printed (trace (LLVMFuzzerTestOneInput utils factory initialized data)) = []) \<and>
   (buf_to_file utils data = Some file \<and>
    printInfo factory file = (out, Inl (StdException what)) \<longrightarrow>
      printed (trace (LLVMFuzzerTestOneInput utils factory initialized data)) =
        out @ what @ ''\<newline>'') \<and>
   (buf_to_file utils data = Some file \<and> snd (printInfo factory file) \<noteq> Inl NonStdThrow \<longrightarrow>
      outcome (LLVMFuzzerTestOneInput utils factory initialized data) =
        (if delete_file utils file = 0 then Returned EXIT_SUCCESS else Exited EXIT_FAILURE))"
proof (intro conjI impI)
  assume "buf_to_file utils data = None"
  then show "outcome (LLVMFuzzerTestOneInput utils factory initialized data) = Exited EXIT_FAILURE"
    and "printed (trace (LLVMFuzzerTestOneInput utils factory initialized data)) = []"
    by (simp_all add: LLVMFuzzerTestOneInput_def)
next
  assume "buf_to_file utils data = Some file \<and>
    printInfo factory file = (out, Inl (StdException what))"
  then show "printed (trace (LLVMFuzzerTestOneInput utils factory initialized data)) =
      out @ what @ ''\<newline>''"
    by (simp add: LLVMFuzzerTestOneInput_def try_printInfo_def)
next
  assume a: "buf_to_file utils data = Some file \<and> snd (printInfo factory file) \<noteq> Inl NonStdThrow"
  obtain out' r where run: "printInfo factory file = (out', r)"
    by (cases "printInfo factory file")
  show "outcome (LLVMFuzzerTestOneInput utils factory initialized data) =
      (if delete_file utils file = 0 then Returned EXIT_SUCCESS else Exited EXIT_FAILURE)"
  proof (cases r)
    case (Inr u)
    with run a show ?thesis
      by (simp add: LLVMFuzzerTestOneInput_def try_printInfo_def)
  next
    case (Inl e)
    with run a obtain w where "e = StdException w"
      by (cases e) auto
    with Inl run a show ?thesis
      by (simp add: LLVMFuzzerTestOneInput_def try_printInfo_def)
  qed
qed

theorem std_exception_caught_witness:
  "buf_to_file utils_no_file [65] = None \<and>
   outcome (LLVMFuzzerTestOneInput utils_no_file (\<lambda>path. Inr truncated_archive) True [65]) =
     Exited 1 \<and>
   buf_to_file utils_ok [65] = Some ''/tmp/fuzz-1'' \<and>
   printed (trace (LLVMFuzzerTestOneInput utils_ok (\<lambda>path. Inr truncated_archive) True [65])) =
     ''\<newline>file /tmp/fuzz-1:\<newline>\<newline>file name: /tmp/fuzz-1\<newline>'' @
     ''Node name: ABC\<newline>Node full name: /\<newline>MetaData: \<newline>Object type ignored.\<newline>'' @
     ''Ogawa: bad index\<newline>'' \<and>
   outcome (LLVMFuzzerTestOneInput utils_ok (\<lambda>path. Inr truncated_archive) True [65]) =
     Returned 0 \<and>
   delete_file utils_no_delete ''/tmp/fuzz-1'' = - 1 \<and>
   outcome (LLVMFuzzerTestOneInput utils_no_delete (\<lambda>path. Inr truncated_archive) True [65]) =
     Exited 1"
proof -
  have none: "buf_to_file utils_no_file [65] = None"
    by (simp add: utils_no_file_def)
  have created: "buf_to_file utils_ok [65] = Some ''/tmp/fuzz-1''"
    "buf_to_file utils_no_delete [65] = Some ''/tmp/fuzz-1''"
    by (simp_all add: utils_ok_def utils_no_delete_def)
  have status: "delete_file utils_ok ''/tmp/fuzz-1'' = 0"
    "delete_file utils_no_delete ''/tmp/fuzz-1'' = - 1"
    by (simp_all add: utils_ok_def utils_no_delete_def)
  have std: "snd (printInfo (\<lambda>path. Inr truncated_archive) ''/tmp/fuzz-1'') \<noteq> Inl NonStdThrow"
    by (simp add: printInfo_truncated)
  show ?thesis
    using none created status std printInfo_truncated
      std_exception_caught [of utils_no_file "[65]" "\<lambda>path. Inr truncated_archive" True]
      std_exception_caught [of utils_ok "[65]" "\<lambda>path. Inr truncated_archive" True
        "''/tmp/fuzz-1''"
        "''\<newline>file /tmp/fuzz-1:\<newline>\<newline>file name: /tmp/fuzz-1\<newline>'' @
         ''Node name: ABC\<newline>Node full name: /\<newline>MetaData: \<newline>Object type ignored.\<newline>''"
        "''Ogawa: bad index''"]
      std_exception_caught [of utils_no_delete "[65]" "\<lambda>path. Inr truncated_archive" True
        "''/tmp/fuzz-1''"]
    by (simp add: EXIT_SUCCESS_def EXIT_FAILURE_def)
qed

text \<open>
  C2 as stated fails for an exception that is not derived from \<^verbatim>\<open>std::exception\<close>: thrown
  while the archive is opened, it is not caught, no message is printed and the invocation
  does not return.
\<close>

theorem non_std_throw_not_caught:
  "outcome (LLVMFuzzerTestOneInput utils_ok (\<lambda>path. Inl NonStdThrow) True [65]) =
     Uncaught NonStdThrow \<and>
   outcome (LLVMFuzzerTestOneInput utils_ok (\<lambda>path. Inl NonStdThrow) True [65]) \<noteq>
     Returned EXIT_SUCCESS \<and>
   printed (trace (LLVMFuzzerTestOneInput utils_ok (\<lambda>path. Inl NonStdThrow) True [65])) = []"
  by (simp add: LLVMFuzzerTestOneInput_def try_printInfo_def utils_ok_def printInfo_def
      throw_def)

end
